theory Spec2Isabelle
  imports Main
begin

section \<open>ZCAP invocation verification (pkg/zcapld/verify.go)\<close>

text \<open>
  A shallow embedding of \<^verbatim>\<open>Verifier.Verify\<close>, \<^verbatim>\<open>verifyCapabilityChain\<close>,
  \<^verbatim>\<open>stringsContain\<close> and \<^verbatim>\<open>isInvoker\<close>.

  Go pointers and interface values that the code may find nil are \<open>option\<close>s, and a nil
  dereference is the outcome \<open>Panic\<close>. Go's \<^verbatim>\<open>error\<close> results are \<open>error option\<close>
  (\<open>None\<close> is \<^verbatim>\<open>nil\<close>). The one effect of the code, the call of
  \<^verbatim>\<open>CapabilityResolver.Resolve\<close>, is recorded: every run returns the list of the URIs it
  passed to the resolver, in order, next to its outcome.
\<close>

subsection \<open>Data model\<close>

text \<open>
  An entry of a capability chain is an \<^verbatim>\<open>interface{}\<close>: the code only asks whether it is
  a string (\<^verbatim>\<open>untyped.(string)\<close>). A value of any other dynamic type is kept as its
  \<^verbatim>\<open>%v\<close> rendering, which is all the code does with it.
\<close>

datatype untyped = UString string | UOther string

text \<open>
  One constructor for each place where verify.go builds an error; a wrapping
  \<^verbatim>\<open>fmt.Errorf("...: %w", err)\<close> keeps the wrapped error. Lines 43 and 95 use the same
  format and share \<open>ErrInvalidChain\<close>. \<open>ErrExternal\<close> is an error made outside
  verify.go (by the resolver or by an accessor of \<^verbatim>\<open>Capability\<close>), with its message.
\<close>

datatype error =
    ErrExternal string
  | ErrMissingCapability
  | ErrInvalidChain error
  | ErrIsInvoke error
  | ErrInvokerMismatch
  | ErrActionNotAllowed string "string list"
  | ErrActionMismatch string string
  | ErrFetchChain error
  | ErrRootURIFormat untyped
  | ErrResolveRoot string error
  | ErrTargetMismatch string string
  | ErrRootMismatch string string
  | ErrRootTarget
  | ErrMultipleChains
  | ErrFetchInvokers error

datatype 'a outcome = Panic | Return 'a

text \<open>
  Modelled from the spec: \<^verbatim>\<open>InvocationTarget\<close>, \<^verbatim>\<open>Capability\<close>,
  \<^verbatim>\<open>VerificationMethod\<close>, \<^verbatim>\<open>CapabilityInvocation\<close> and \<^verbatim>\<open>CapabilityResolver\<close>
  are declared outside verify.go, and so are the methods \<^verbatim>\<open>validateCapabilityChain\<close>,
  \<^verbatim>\<open>capabilityChain\<close> and \<^verbatim>\<open>invokers\<close> of \<^verbatim>\<open>Capability\<close>. The records have the
  fields that verify.go reads, with the types it reads them at and the names of the
  specification's data model. \<open>Capability\<close> carries the result of each of its three
  methods as a further field, so that a capability may answer them in any way:
  \<open>validateCapabilityChain\<close> is the error returned (\<open>None\<close> for \<^verbatim>\<open>nil\<close>),
  \<open>capabilityChain\<close> and \<open>invokers\<close> are the error (\<open>Inl\<close>) or the slice (\<open>Inr\<close>).
  \<^verbatim>\<open>root.InvocationTarget.ID\<close> reads a struct held by value.
\<close>

record InvocationTarget =
  ID :: string
  Type :: string

record Capability =
  ID :: string
  InvocationTarget :: InvocationTarget
  AllowedAction :: "string list"
  validateCapabilityChain :: "error option"
  capabilityChain :: "error + untyped list"
  invokers :: "error + string list"

record VerificationMethod =
  ID :: string
  Controller :: string

record CapabilityInvocation =
  ExpectedAction :: string
  ExpectedTarget :: string
  ExpectedRootCapability :: string
  VerificationMethod :: "VerificationMethod option"

text \<open>
  \<^verbatim>\<open>Proof\<close> and \<^verbatim>\<open>Verifier\<close> are declared in verify.go (lines 15-24).
  \<^verbatim>\<open>CapabilityResolver.Resolve(uri) (*Capability, error)\<close> is the pair Go returns;
  \<^verbatim>\<open>Verifier\<close> holds the resolver in an interface-typed field, which may be nil.
\<close>

record Proof =
  Capability :: "Capability option"
  CapabilityAction :: string
  VerificationMethod :: string


type_synonym CapabilityResolver = "string \<Rightarrow> Capability option \<times> error option"

record Verifier =
  zcaps :: "CapabilityResolver option"

text \<open>\<^verbatim>\<open>NewVerifier\<close> stores its argument unchecked and never fails.\<close>

definition NewVerifier :: "CapabilityResolver option \<Rightarrow> Verifier option \<times> error option" where
  "NewVerifier zcapResolver = (Some \<lparr>zcaps = zcapResolver\<rparr>, None)"

subsection \<open>Error messages\<close>

fun joinSpace :: "string list \<Rightarrow> string" where
  "joinSpace [] = []"
| "joinSpace [s] = s"
| "joinSpace (s # t # ss) = s @ '' '' @ joinSpace (t # ss)"

text \<open>\<^verbatim>\<open>%+v\<close> of a \<^verbatim>\<open>[]string\<close> and \<^verbatim>\<open>%v\<close> of a chain entry.\<close>

definition fmtStrings :: "string list \<Rightarrow> string" where
  "fmtStrings strs = ''['' @ joinSpace strs @ '']''"

fun fmtUntyped :: "untyped \<Rightarrow> string" where
  "fmtUntyped (UString s) = s"
| "fmtUntyped (UOther r) = r"

fun errorString :: "error \<Rightarrow> string" where
  "errorString (ErrExternal m) = m"
| \<open>errorString ErrMissingCapability =
     ''"capability" was not found in the capability invocation proof''\<close>
| "errorString (ErrInvalidChain e) = ''invalid capability chain: '' @ errorString e"
| "errorString (ErrIsInvoke e) = ''isInvoke: '' @ errorString e"
| "errorString ErrInvokerMismatch =
     ''the authorized invoker does not match the verification method or its controller''"
| \<open>errorString (ErrActionNotAllowed a allowed) =
     ''capability action "'' @ a @
     ''" is not allowed by the capability; allowed actions are: '' @ fmtStrings allowed\<close>
| \<open>errorString (ErrActionMismatch a expected) =
     ''capability action "'' @ a @
     ''" does not match the expected capability action of "'' @ expected @ ''"''\<close>
| "errorString (ErrFetchChain e) = ''failed to fetch capabilityChain: '' @ errorString e"
| "errorString (ErrRootURIFormat u) = ''invalid rootURI format: '' @ fmtUntyped u"
| "errorString (ErrResolveRoot uri e) =
     ''failed to resolve root capability URI '' @ uri @ '': '' @ errorString e"
| \<open>errorString (ErrTargetMismatch expected target) =
     ''expected target does not match root capability target: expected="'' @ expected @
     ''" target="'' @ target @ ''"''\<close>
| "errorString (ErrRootMismatch expected actual) =
     ''expected root capability does not match actual root capability: expected=('' @
     expected @ '') actual=('' @ actual @ '')''"
| "errorString ErrRootTarget =
     ''the root capability must not specify a different invocation target''"
| "errorString ErrMultipleChains = ''multiple capabilityChains not supported yet''"
| "errorString (ErrFetchInvokers e) = ''failed to fetch invokers: '' @ errorString e"

subsection \<open>The code\<close>

fun stringsContain :: "string list \<Rightarrow> string \<Rightarrow> bool" where
  "stringsContain [] s = False"
| "stringsContain (x # strs) s = (if s = x then True else stringsContain strs s)"

text \<open>
  \<^verbatim>\<open>isInvoker\<close> (lines 179-193). The capability is the one \<^verbatim>\<open>Verify\<close> has found
  non-nil; the verification method is a pointer, read at line 185 after the invokers have
  been fetched.
\<close>

definition isInvoker ::
  "Capability \<Rightarrow> VerificationMethod option \<Rightarrow> (bool \<times> error option) outcome" where
  "isInvoker capability verificationMethod =
     (case invokers capability of
        Inl err \<Rightarrow> Return (False, Some (ErrFetchInvokers err))
      | Inr invs \<Rightarrow>
          (case verificationMethod of
             None \<Rightarrow> Panic
           | Some vm \<Rightarrow>
               (let controller = Controller vm in
                if length invs > 0
                then Return (stringsContain invs (VerificationMethod.ID vm) \<or>
                             (controller \<noteq> [] \<and> stringsContain invs controller), None)
                else Return (False, None))))"

text \<open>
  \<^verbatim>\<open>verifyCapabilityChain\<close> (lines 75-167), in the order of the source. The receiver and
  the invocation are pointers: the invocation is first read at line 86, the receiver and
  its resolver at line 126. The resolved root is read (lines 134, 146 or 153) on every
  path that follows a successful resolution, before anything is returned, so a nil root
  panics there. The second component \<open>rest\<close> of the popped chain is
  \<^verbatim>\<open>capabilityChain[1:]\<close>.
\<close>

definition verifyCapabilityChain ::
  "Verifier option \<Rightarrow> Capability \<Rightarrow> string \<Rightarrow> CapabilityInvocation option
     \<Rightarrow> string list \<times> error option outcome" where
  "verifyCapabilityChain v capability intendedAction invocation =
     (if length (AllowedAction capability) > 0 \<and> intendedAction \<noteq> [] \<and>
         \<not> stringsContain (AllowedAction capability) intendedAction
      then ([], Return (Some (ErrActionNotAllowed intendedAction (AllowedAction capability))))
      else
     (case invocation of
        None \<Rightarrow> ([], Panic)
      | Some invo \<Rightarrow>
     (if ExpectedAction invo \<noteq> intendedAction
      then ([], Return (Some (ErrActionMismatch intendedAction (ExpectedAction invo))))
      else
     (case validateCapabilityChain capability of
        Some err \<Rightarrow> ([], Return (Some (ErrInvalidChain err)))
      | None \<Rightarrow>
     (case capabilityChain capability of
        Inl err \<Rightarrow> ([], Return (Some (ErrFetchChain err)))
      | Inr chain \<Rightarrow>
     (let isRoot = (length chain = 0) in
     (case (case chain of
              [] \<Rightarrow> Inr (Capability.ID capability, chain)
            | untyped # rest \<Rightarrow>
                (case untyped of
                   UString s \<Rightarrow> Inr (s, rest)
                 | UOther r \<Rightarrow> Inl (ErrRootURIFormat untyped))) of
        Inl err \<Rightarrow> ([], Return (Some err))
      | Inr (rootURI, rest) \<Rightarrow>
     (case v of
        None \<Rightarrow> ([], Panic)
      | Some vr \<Rightarrow>
     (case zcaps vr of
        None \<Rightarrow> ([], Panic)
      | Some resolve \<Rightarrow>
     (case resolve rootURI of
        (r, Some err) \<Rightarrow> ([rootURI], Return (Some (ErrResolveRoot rootURI err)))
      | (None, None) \<Rightarrow> ([rootURI], Panic)
      | (Some root, None) \<Rightarrow>
          ([rootURI],
           if ExpectedTarget invo \<noteq> [] \<and>
              ExpectedTarget invo \<noteq> InvocationTarget.ID (InvocationTarget root)
           then Return (Some (ErrTargetMismatch (ExpectedTarget invo)
                                (InvocationTarget.ID (InvocationTarget root))))
           else if ExpectedRootCapability invo \<noteq> [] \<and>
                   ExpectedRootCapability invo \<noteq> Capability.ID root
           then Return (Some (ErrRootMismatch (ExpectedRootCapability invo)
                                (Capability.ID root)))
           else if ExpectedRootCapability invo = [] \<and>
                   InvocationTarget.ID (InvocationTarget root) \<noteq> Capability.ID root
           then Return (Some ErrRootTarget)
           else if isRoot then Return None
           else if length rest > 0 then Return (Some ErrMultipleChains)
           else Return None)))))))))))"

text \<open>
  \<^verbatim>\<open>Verify\<close> (lines 32-72). \<^verbatim>\<open>proof.Capability\<close> at line 33 reads the proof pointer;
  \<^verbatim>\<open>invocation.VerificationMethod\<close> at line 49 reads the invocation pointer.
\<close>

definition Verify ::
  "Verifier option \<Rightarrow> Proof option \<Rightarrow> CapabilityInvocation option
     \<Rightarrow> string list \<times> error option outcome" where
  "Verify v proof invocation =
     (case proof of
        None \<Rightarrow> ([], Panic)
      | Some p \<Rightarrow>
     (case Capability p of
        None \<Rightarrow> ([], Return (Some ErrMissingCapability))
      | Some capability \<Rightarrow>
     (case verifyCapabilityChain v capability (CapabilityAction p) invocation of
        (calls, Panic) \<Rightarrow> (calls, Panic)
      | (calls, Return (Some err)) \<Rightarrow> (calls, Return (Some (ErrInvalidChain err)))
      | (calls, Return None) \<Rightarrow>
     (case invocation of
        None \<Rightarrow> (calls, Panic)
      | Some invo \<Rightarrow>
     (case isInvoker capability (CapabilityInvocation.VerificationMethod invo) of
        Panic \<Rightarrow> (calls, Panic)
      | Return (isInv, Some err) \<Rightarrow> (calls, Return (Some (ErrIsInvoke err)))
      | Return (isInv, None) \<Rightarrow>
          if \<not> isInv then (calls, Return (Some ErrInvokerMismatch))
          else (calls, Return None))))))"

subsection \<open>The end-to-end scenario of the specification\<close>

text \<open>
  A root capability that names itself as its invocation target, allows \<open>read\<close> and lists
  one invoker; an invocation of \<open>read\<close> signed by that invoker; a resolver that knows
  this one capability.
\<close>

definition exampleRoot :: Capability where
  "exampleRoot = \<lparr>Capability.ID = ''urn:cap:1'',
     InvocationTarget = \<lparr>InvocationTarget.ID = ''urn:cap:1'', Type = ''urn:edv:document''\<rparr>,
     AllowedAction = [''read''], validateCapabilityChain = None,
     capabilityChain = Inr [], invokers = Inr [''did:ex:alice'']\<rparr>"

definition exampleInvocation :: CapabilityInvocation where
  "exampleInvocation = \<lparr>ExpectedAction = ''read'', ExpectedTarget = [],
     ExpectedRootCapability = [],
     CapabilityInvocation.VerificationMethod =
       Some \<lparr>VerificationMethod.ID = ''did:ex:alice'', Controller = []\<rparr>\<rparr>"

definition exampleProof :: Proof where
  "exampleProof = \<lparr>Capability = Some exampleRoot, CapabilityAction = ''read'',
     Proof.VerificationMethod = ''did:ex:alice''\<rparr>"

definition exampleResolver :: CapabilityResolver where
  "exampleResolver uri =
     (if uri = ''urn:cap:1'' then (Some exampleRoot, None)
      else (None, Some (ErrExternal ''capability not found'')))"

text \<open>
  Further inputs: a root capability over another target than itself; a resolver that
  answers with it; a capability delegated at depth two (its chain holds the root URI and
  one more entry); a resolver that knows no capability.
\<close>

definition vaultRoot :: Capability where
  "vaultRoot = exampleRoot\<lparr>InvocationTarget :=
     \<lparr>InvocationTarget.ID = ''urn:edv:vault'', Type = ''urn:edv:document''\<rparr>\<rparr>"

definition deepCapability :: Capability where
  "deepCapability = exampleRoot\<lparr>Capability.ID := ''urn:cap:3'',
     capabilityChain := Inr [UString ''urn:cap:1'', UOther ''map[id:urn:cap:2]'']\<rparr>"

definition vaultResolver :: CapabilityResolver where
  "vaultResolver uri =
     (if uri = ''urn:cap:1'' then (Some vaultRoot, None)
      else (None, Some (ErrExternal ''capability not found'')))"

definition failingResolver :: CapabilityResolver where
  "failingResolver uri = (None, Some (ErrExternal ''capability not found''))"

section \<open>Properties\<close>

lemma stringsContain_iff: "stringsContain strs s \<longleftrightarrow> s \<in> set strs"
  by (induction strs) auto

subsection \<open>The invoker check\<close>

text \<open>
  C5: \<open>isInvoker\<close> answers true exactly when the capability's invoker list is fetched,
  is non-empty, and holds the verification method's ID or its non-empty Controller. In
  particular an empty invoker list authorizes no verification method, and a method whose
  ID is not in the list but whose (non-empty) Controller is, is authorized.
\<close>

theorem isInvoker_authorizes_iff:
  "((\<exists>err. isInvoker capability (Some vm) = Return (True, err)) \<longleftrightarrow>
      (\<exists>invs. invokers capability = Inr invs \<and> invs \<noteq> [] \<and>
         (VerificationMethod.ID vm \<in> set invs \<or>
          (Controller vm \<noteq> [] \<and> Controller vm \<in> set invs)))) \<and>
   (invokers capability = Inr [] \<longrightarrow>
      isInvoker capability (Some vm) = Return (False, None)) \<and>
   (invokers capability = Inr invs \<and> VerificationMethod.ID vm \<notin> set invs \<and>
    Controller vm \<noteq> [] \<and> Controller vm \<in> set invs \<longrightarrow>
      isInvoker capability (Some vm) = Return (True, None))"
  by (auto simp: isInvoker_def stringsContain_iff Let_def split: sum.splits)

theorem isInvoker_authorizes_iff_witness:
  "invokers (exampleRoot\<lparr>invokers := Inr [''c1'']\<rparr>) = Inr [''c1''] \<and>
   VerificationMethod.ID \<lparr>VerificationMethod.ID = ''m1'', Controller = ''c1''\<rparr> \<notin> set [''c1''] \<and>
   Controller \<lparr>VerificationMethod.ID = ''m1'', Controller = ''c1''\<rparr> \<in> set [''c1''] \<and>
   isInvoker (exampleRoot\<lparr>invokers := Inr [''c1'']\<rparr>)
     (Some \<lparr>VerificationMethod.ID = ''m1'', Controller = ''c1''\<rparr>) = Return (True, None) \<and>
   invokers (exampleRoot\<lparr>invokers := Inr []\<rparr>) = Inr [] \<and>
   isInvoker (exampleRoot\<lparr>invokers := Inr []\<rparr>)
     (Some \<lparr>VerificationMethod.ID = ''m1'', Controller = ''c1''\<rparr>) = Return (False, None)"
  using isInvoker_authorizes_iff
          [of "exampleRoot\<lparr>invokers := Inr [''c1'']\<rparr>"
              "\<lparr>VerificationMethod.ID = ''m1'', Controller = ''c1''\<rparr>" "[''c1'']"]
        isInvoker_authorizes_iff
          [of "exampleRoot\<lparr>invokers := Inr []\<rparr>"
              "\<lparr>VerificationMethod.ID = ''m1'', Controller = ''c1''\<rparr>" "[]"]
  by simp


subsection \<open>The missing capability\<close>

text \<open>
  C8: when the proof's \<open>Capability\<close> is nil, \<open>Verify\<close> returns the error
  \<^verbatim>\<open>"capability" was not found in the capability invocation proof\<close> at once: the resolver
  has not been called (the list of resolved URIs is empty), and the result is the same for
  every verifier and every invocation, nil included, so neither has been read.
\<close>

theorem Verify_missing_capability:
  \<open>Capability p = None \<Longrightarrow>
     Verify v (Some p) invocation = ([], Return (Some ErrMissingCapability)) \<and>
     errorString ErrMissingCapability =
       ''"capability" was not found in the capability invocation proof''\<close>
  by (simp add: Verify_def)

theorem Verify_missing_capability_witness:
  "Capability (exampleProof\<lparr>Capability := None\<rparr>) = None \<and>
   Verify (Some \<lparr>zcaps = Some exampleResolver\<rparr>) (Some (exampleProof\<lparr>Capability := None\<rparr>))
     (Some exampleInvocation) = ([], Return (Some ErrMissingCapability)) \<and>
   Verify None (Some (exampleProof\<lparr>Capability := None\<rparr>)) None =
     ([], Return (Some ErrMissingCapability))"
  using Verify_missing_capability
          [of "exampleProof\<lparr>Capability := None\<rparr>" "Some \<lparr>zcaps = Some exampleResolver\<rparr>"
              "Some exampleInvocation"]
        Verify_missing_capability [of "exampleProof\<lparr>Capability := None\<rparr>" None None]
  by simp

subsection \<open>Action scoping and the expected action\<close>

text \<open>
  C1, as stated, fails: line 79 skips the scoping check when no intended action is given.
  With the allowed actions \<open>[read]\<close>, the intended action \<open>""\<close> and the expected
  action \<open>""\<close>, the scenario's invocation is accepted.
\<close>

theorem Verify_action_not_allowed_counterexample:
  "AllowedAction exampleRoot \<noteq> [] \<and>
   [] \<notin> set (AllowedAction exampleRoot) \<and>
   Verify (Some \<lparr>zcaps = Some exampleResolver\<rparr>)
     (Some (exampleProof\<lparr>CapabilityAction := []\<rparr>))
     (Some (exampleInvocation\<lparr>ExpectedAction := []\<rparr>)) = ([''urn:cap:1''], Return None)"
  by (simp add: Verify_def verifyCapabilityChain_def isInvoker_def exampleResolver_def
        exampleProof_def exampleInvocation_def exampleRoot_def)

text \<open>
  C1, amended: for every capability whose \<open>AllowedAction\<close> list is non-empty and does
  not contain the intended action, and every intended action that is given (not the empty
  string), \<open>Verify\<close> returns the action-not-allowed error, naming the action and the
  allowed list, for every verifier and every invocation (nil included), without calling
  the resolver.
\<close>

theorem Verify_action_not_allowed:
  assumes "Capability p = Some capability"
    and "AllowedAction capability \<noteq> []"
    and "CapabilityAction p \<noteq> []"
    and "CapabilityAction p \<notin> set (AllowedAction capability)"
  shows "Verify v (Some p) invocation =
           ([], Return (Some (ErrInvalidChain
                 (ErrActionNotAllowed (CapabilityAction p) (AllowedAction capability)))))"
  using assms by (simp add: Verify_def verifyCapabilityChain_def stringsContain_iff)

theorem Verify_action_not_allowed_witness:
  "Capability (exampleProof\<lparr>CapabilityAction := ''write''\<rparr>) = Some exampleRoot \<and>
   AllowedAction exampleRoot \<noteq> [] \<and>
   CapabilityAction (exampleProof\<lparr>CapabilityAction := ''write''\<rparr>) \<noteq> [] \<and>
   CapabilityAction (exampleProof\<lparr>CapabilityAction := ''write''\<rparr>)
     \<notin> set (AllowedAction exampleRoot) \<and>
   Verify None (Some (exampleProof\<lparr>CapabilityAction := ''write''\<rparr>)) None =
     ([], Return (Some (ErrInvalidChain (ErrActionNotAllowed ''write'' [''read'']))))"
proof -
  let ?p = "exampleProof\<lparr>CapabilityAction := ''write''\<rparr>"
  have c: "Capability ?p = Some exampleRoot" by (simp add: exampleProof_def)
  have a: "AllowedAction exampleRoot \<noteq> []" by (simp add: exampleRoot_def)
  have n: "CapabilityAction ?p \<noteq> []" by simp
  have m: "CapabilityAction ?p \<notin> set (AllowedAction exampleRoot)"
    by (simp add: exampleRoot_def)
  from Verify_action_not_allowed [OF c a n m, of None None] c a n m
  show ?thesis by (simp add: exampleRoot_def)
qed

text \<open>
  C2, as stated, fails: action scoping (line 79) comes before the comparison with the
  expected action (line 86). With the allowed actions \<open>[read]\<close>, the intended action
  \<open>write\<close> and the expected action \<open>read\<close>, the error is action-not-allowed.
\<close>

theorem Verify_action_mismatch_counterexample:
  "ExpectedAction exampleInvocation \<noteq> CapabilityAction (exampleProof\<lparr>CapabilityAction := ''write''\<rparr>) \<and>
   Verify (Some \<lparr>zcaps = Some exampleResolver\<rparr>)
     (Some (exampleProof\<lparr>CapabilityAction := ''write''\<rparr>)) (Some exampleInvocation) =
     ([], Return (Some (ErrInvalidChain (ErrActionNotAllowed ''write'' [''read''])))) \<and>
   ErrActionNotAllowed ''write'' [''read''] \<noteq> ErrActionMismatch ''write'' ''read''"
  by (simp add: Verify_def verifyCapabilityChain_def exampleProof_def exampleInvocation_def
        exampleRoot_def)

text \<open>
  C2, amended: for every proof with a capability and every invocation whose
  \<open>ExpectedAction\<close> differs from the intended action, if action scoping passes (the
  \<open>AllowedAction\<close> list is empty, or the intended action is empty, or it is in the
  list), \<open>Verify\<close> returns the action-mismatch error, whose message quotes both values.
\<close>

theorem Verify_action_mismatch:
  assumes "Capability p = Some capability"
    and "AllowedAction capability = [] \<or> CapabilityAction p = [] \<or>
         CapabilityAction p \<in> set (AllowedAction capability)"
    and "ExpectedAction invo \<noteq> CapabilityAction p"
  shows \<open>Verify v (Some p) (Some invo) =
           ([], Return (Some (ErrInvalidChain
                 (ErrActionMismatch (CapabilityAction p) (ExpectedAction invo))))) \<and>
         errorString (ErrInvalidChain
             (ErrActionMismatch (CapabilityAction p) (ExpectedAction invo))) =
           ''invalid capability chain: capability action "'' @ CapabilityAction p @
           ''" does not match the expected capability action of "'' @
           ExpectedAction invo @ ''"''\<close>
  using assms by (auto simp: Verify_def verifyCapabilityChain_def stringsContain_iff)

theorem Verify_action_mismatch_witness:
  "Capability exampleProof = Some exampleRoot \<and>
   CapabilityAction exampleProof \<in> set (AllowedAction exampleRoot) \<and>
   ExpectedAction (exampleInvocation\<lparr>ExpectedAction := ''write''\<rparr>) \<noteq>
     CapabilityAction exampleProof \<and>
   Verify (Some \<lparr>zcaps = Some exampleResolver\<rparr>) (Some exampleProof)
     (Some (exampleInvocation\<lparr>ExpectedAction := ''write''\<rparr>)) =
     ([], Return (Some (ErrInvalidChain (ErrActionMismatch ''read'' ''write''))))"
proof -
  let ?i = "exampleInvocation\<lparr>ExpectedAction := ''write''\<rparr>"
  have c: "Capability exampleProof = Some exampleRoot" by (simp add: exampleProof_def)
  have a: "CapabilityAction exampleProof \<in> set (AllowedAction exampleRoot)"
    by (simp add: exampleProof_def exampleRoot_def)
  then have a': "AllowedAction exampleRoot = [] \<or> CapabilityAction exampleProof = [] \<or>
         CapabilityAction exampleProof \<in> set (AllowedAction exampleRoot)" by simp 
  have n: "ExpectedAction ?i \<noteq> CapabilityAction exampleProof"
    by (simp add: exampleProof_def)
  from Verify_action_mismatch [OF c a' n, of "Some \<lparr>zcaps = Some exampleResolver\<rparr>"] c a n
  show ?thesis by (simp add: exampleProof_def)
qed

subsection \<open>Resolution of the root capability\<close>

text \<open>
  What \<open>verifyCapabilityChain\<close> does once the steps before the resolution pass (action
  scoping, expected action, chain validation, chain extraction with a string first entry):
  it resolves the root URI, which is the capability's own ID when the chain is empty and
  the first chain entry otherwise, and then checks the resolved root.
\<close>

lemma verifyCapabilityChain_resolution:
  assumes "AllowedAction cap = [] \<or> a = [] \<or> a \<in> set (AllowedAction cap)"
    and "ExpectedAction invo = a"
    and "validateCapabilityChain cap = None"
    and "capabilityChain cap = Inr chain"
    and "chain = [] \<and> rootURI = Capability.ID cap \<or> (\<exists>rest. chain = UString rootURI # rest)"
  shows "verifyCapabilityChain (Some \<lparr>zcaps = Some resolve\<rparr>) cap a (Some invo) =
     (case resolve rootURI of
        (r, Some err) \<Rightarrow> ([rootURI], Return (Some (ErrResolveRoot rootURI err)))
      | (None, None) \<Rightarrow> ([rootURI], Panic)
      | (Some root, None) \<Rightarrow>
          ([rootURI],
           if ExpectedTarget invo \<noteq> [] \<and>
              ExpectedTarget invo \<noteq> InvocationTarget.ID (InvocationTarget root)
           then Return (Some (ErrTargetMismatch (ExpectedTarget invo)
                                (InvocationTarget.ID (InvocationTarget root))))
           else if ExpectedRootCapability invo \<noteq> [] \<and>
                   ExpectedRootCapability invo \<noteq> Capability.ID root
           then Return (Some (ErrRootMismatch (ExpectedRootCapability invo)
                                (Capability.ID root)))
           else if ExpectedRootCapability invo = [] \<and>
                   InvocationTarget.ID (InvocationTarget root) \<noteq> Capability.ID root
           then Return (Some ErrRootTarget)
           else if tl chain = [] then Return None
           else Return (Some ErrMultipleChains)))"
proof -
  have scoping: "\<not> (length (AllowedAction cap) > 0 \<and> a \<noteq> [] \<and>
                    \<not> stringsContain (AllowedAction cap) a)"
    using assms(1) by (auto simp: stringsContain_iff)
  from assms(5) show ?thesis
  proof
    assume "chain = [] \<and> rootURI = Capability.ID cap"
    with scoping assms(2-4) show ?thesis
      by (simp add: verifyCapabilityChain_def split: prod.splits option.splits)
  next
    assume "\<exists>rest. chain = UString rootURI # rest"
    then obtain rest where "chain = UString rootURI # rest" ..
    with scoping assms(2-4) show ?thesis
      by (simp add: verifyCapabilityChain_def split: prod.splits option.splits)
  qed
qed

lemma verifyCapabilityChain_success:
  assumes "verifyCapabilityChain v cap a invocation = (calls, Return None)"
  shows "\<exists>vr resolve uri root chain.
           v = Some vr \<and> zcaps vr = Some resolve \<and> calls = [uri] \<and>
           resolve uri = (Some root, None) \<and> capabilityChain cap = Inr chain \<and>
           (chain = [] \<and> uri = Capability.ID cap \<or> chain = [UString uri])"
  using assms
  by (auto simp: verifyCapabilityChain_def Let_def
           split: if_splits option.splits sum.splits list.splits untyped.splits prod.splits)

lemma Verify_chain_error:
  assumes "Capability p = Some cap"
    and "verifyCapabilityChain v cap (CapabilityAction p) invocation = (calls, Return (Some err))"
  shows "Verify v (Some p) invocation = (calls, Return (Some (ErrInvalidChain err)))"
  using assms by (simp add: Verify_def)

lemma Verify_calls:
  assumes "Capability p = Some cap"
  shows "fst (Verify v (Some p) invocation) =
         fst (verifyCapabilityChain v cap (CapabilityAction p) invocation)"
  using assms
  by (simp add: Verify_def split: prod.splits outcome.splits option.splits)

lemma Verify_success:
  assumes "Verify v proof invocation = (calls, Return None)"
  shows "\<exists>p cap. proof = Some p \<and> Capability p = Some cap \<and>
           verifyCapabilityChain v cap (CapabilityAction p) invocation = (calls, Return None)"
  using assms
  by (auto simp: Verify_def split: prod.splits outcome.splits option.splits if_splits)

lemma example_accepted:
  "Verify (Some \<lparr>zcaps = Some exampleResolver\<rparr>) (Some exampleProof) (Some exampleInvocation) =
     ([''urn:cap:1''], Return None)"
  by (simp add: Verify_def verifyCapabilityChain_def isInvoker_def exampleResolver_def
        exampleProof_def exampleInvocation_def exampleRoot_def)

text \<open>
  C3, as stated, fails: the resolver is only reached when the earlier steps pass. A
  capability with an empty chain whose invocation expects another action is rejected
  with the action-mismatch error; the resolver, which here fails on every URI, is never
  called, and the error returned does not wrap a resolver error.
\<close>

theorem Verify_root_resolution_counterexample:
  "capabilityChain exampleRoot = Inr [] \<and>
   Verify (Some \<lparr>zcaps = Some failingResolver\<rparr>)
     (Some exampleProof) (Some (exampleInvocation\<lparr>ExpectedAction := ''write''\<rparr>)) =
     ([], Return (Some (ErrInvalidChain (ErrActionMismatch ''read'' ''write''))))"
  by (simp add: Verify_def verifyCapabilityChain_def exampleProof_def exampleInvocation_def
        exampleRoot_def)

text \<open>
  C3, amended: whenever the steps before the resolution pass (action scoping, expected
  action, chain validation, extraction of a chain that is empty or starts with a string)
  and the verifier holds a resolver, \<open>Verify\<close> calls the resolver exactly once, with the
  root URI, which is the capability's own ID when its chain is empty; and for every
  resolver error on the root URI (empty chain or not) \<open>Verify\<close> fails with an error that
  wraps the resolver's error and names the URI. For all inputs, \<open>Verify\<close> succeeds only
  after the verifier's resolver has resolved the root URI without error to a non-nil
  capability.
\<close>

theorem Verify_root_resolution:
  "(Capability p = Some cap \<and>
    (AllowedAction cap = [] \<or> CapabilityAction p = [] \<or>
     CapabilityAction p \<in> set (AllowedAction cap)) \<and>
    ExpectedAction invo = CapabilityAction p \<and>
    validateCapabilityChain cap = None \<and>
    capabilityChain cap = Inr chain \<and>
    (chain = [] \<and> rootURI = Capability.ID cap \<or> (\<exists>rest. chain = UString rootURI # rest))
    \<longrightarrow>
      fst (Verify (Some \<lparr>zcaps = Some resolve\<rparr>) (Some p) (Some invo)) = [rootURI] \<and>
      (\<forall>r err. resolve rootURI = (r, Some err) \<longrightarrow>
         Verify (Some \<lparr>zcaps = Some resolve\<rparr>) (Some p) (Some invo) =
           ([rootURI], Return (Some (ErrInvalidChain (ErrResolveRoot rootURI err)))) \<and>
         errorString (ErrInvalidChain (ErrResolveRoot rootURI err)) =
           ''invalid capability chain: failed to resolve root capability URI '' @ rootURI @
           '': '' @ errorString err)) \<and>
   (snd (Verify v proof invocation) = Return None \<longrightarrow>
      (\<exists>p cap chain vr resolve uri root.
         proof = Some p \<and> Capability p = Some cap \<and> capabilityChain cap = Inr chain \<and>
         (chain = [] \<and> uri = Capability.ID cap \<or> chain = [UString uri]) \<and>
         v = Some vr \<and> zcaps vr = Some resolve \<and>
         fst (Verify v proof invocation) = [uri] \<and> resolve uri = (Some root, None)))"
proof (intro conjI impI allI)
  assume h: "Capability p = Some cap \<and>
    (AllowedAction cap = [] \<or> CapabilityAction p = [] \<or>
     CapabilityAction p \<in> set (AllowedAction cap)) \<and>
    ExpectedAction invo = CapabilityAction p \<and>
    validateCapabilityChain cap = None \<and>
    capabilityChain cap = Inr chain \<and>
    (chain = [] \<and> rootURI = Capability.ID cap \<or> (\<exists>rest. chain = UString rootURI # rest))"
  then have c: "Capability p = Some cap" by simp
  have eq: "verifyCapabilityChain (Some \<lparr>zcaps = Some resolve\<rparr>) cap (CapabilityAction p)
              (Some invo) =
     (case resolve rootURI of
        (r, Some err) \<Rightarrow> ([rootURI], Return (Some (ErrResolveRoot rootURI err)))
      | (None, None) \<Rightarrow> ([rootURI], Panic)
      | (Some root, None) \<Rightarrow>
          ([rootURI],
           if ExpectedTarget invo \<noteq> [] \<and>
              ExpectedTarget invo \<noteq> InvocationTarget.ID (InvocationTarget root)
           then Return (Some (ErrTargetMismatch (ExpectedTarget invo)
                                (InvocationTarget.ID (InvocationTarget root))))
           else if ExpectedRootCapability invo \<noteq> [] \<and>
                   ExpectedRootCapability invo \<noteq> Capability.ID root
           then Return (Some (ErrRootMismatch (ExpectedRootCapability invo)
                                (Capability.ID root)))
           else if ExpectedRootCapability invo = [] \<and>
                   InvocationTarget.ID (InvocationTarget root) \<noteq> Capability.ID root
           then Return (Some ErrRootTarget)
           else if tl chain = [] then Return None
           else Return (Some ErrMultipleChains)))"
    using h by (intro verifyCapabilityChain_resolution) simp_all
  show "fst (Verify (Some \<lparr>zcaps = Some resolve\<rparr>) (Some p) (Some invo)) = [rootURI]"
    unfolding Verify_calls [OF c] eq by (simp split: prod.splits option.splits)
  fix r err
  assume "resolve rootURI = (r, Some err)"
  with eq have "verifyCapabilityChain (Some \<lparr>zcaps = Some resolve\<rparr>) cap (CapabilityAction p)
              (Some invo) = ([rootURI], Return (Some (ErrResolveRoot rootURI err)))"
    by (simp split: option.splits)
  then show "Verify (Some \<lparr>zcaps = Some resolve\<rparr>) (Some p) (Some invo) =
           ([rootURI], Return (Some (ErrInvalidChain (ErrResolveRoot rootURI err))))"
    by (rule Verify_chain_error [OF c])
  show "errorString (ErrInvalidChain (ErrResolveRoot rootURI err)) =
           ''invalid capability chain: failed to resolve root capability URI '' @ rootURI @
           '': '' @ errorString err"
    by simp
next
  assume "snd (Verify v proof invocation) = Return None"
  then have "Verify v proof invocation = (fst (Verify v proof invocation), Return None)"
    by (metis prod.collapse)
  from Verify_success [OF this] obtain p cap where
    pc: "proof = Some p" "Capability p = Some cap" and
    vc: "verifyCapabilityChain v cap (CapabilityAction p) invocation =
           (fst (Verify v proof invocation), Return None)"
    by blast
  from verifyCapabilityChain_success [OF vc] pc
  show "\<exists>p cap chain vr resolve uri root.
         proof = Some p \<and> Capability p = Some cap \<and> capabilityChain cap = Inr chain \<and>
         (chain = [] \<and> uri = Capability.ID cap \<or> chain = [UString uri]) \<and>
         v = Some vr \<and> zcaps vr = Some resolve \<and>
         fst (Verify v proof invocation) = [uri] \<and> resolve uri = (Some root, None)"
    by blast
qed

theorem Verify_root_resolution_witness:
  "Capability exampleProof = Some exampleRoot \<and>
   CapabilityAction exampleProof \<in> set (AllowedAction exampleRoot) \<and>
   ExpectedAction exampleInvocation = CapabilityAction exampleProof \<and>
   validateCapabilityChain exampleRoot = None \<and>
   capabilityChain exampleRoot = Inr [] \<and>
   failingResolver (Capability.ID exampleRoot) =
     (None, Some (ErrExternal ''capability not found'')) \<and>
   fst (Verify (Some \<lparr>zcaps = Some failingResolver\<rparr>)
     (Some exampleProof) (Some exampleInvocation)) = [Capability.ID exampleRoot] \<and>
   Verify (Some \<lparr>zcaps = Some failingResolver\<rparr>)
     (Some exampleProof) (Some exampleInvocation) =
     ([''urn:cap:1''], Return (Some (ErrInvalidChain
        (ErrResolveRoot ''urn:cap:1'' (ErrExternal ''capability not found''))))) \<and>
   snd (Verify (Some \<lparr>zcaps = Some exampleResolver\<rparr>) (Some exampleProof)
          (Some exampleInvocation)) = Return None \<and>
   (\<exists>uri root.
      fst (Verify (Some \<lparr>zcaps = Some exampleResolver\<rparr>) (Some exampleProof)
             (Some exampleInvocation)) = [uri] \<and>
      exampleResolver uri = (Some root, None))"
proof -
  have h: "Capability exampleProof = Some exampleRoot"
    "CapabilityAction exampleProof \<in> set (AllowedAction exampleRoot)"
    "ExpectedAction exampleInvocation = CapabilityAction exampleProof"
    "validateCapabilityChain exampleRoot = None"
    "capabilityChain exampleRoot = Inr []"
    "failingResolver (Capability.ID exampleRoot) =
       (None, Some (ErrExternal ''capability not found''))"
    by (simp_all add: exampleProof_def exampleRoot_def exampleInvocation_def
          failingResolver_def)
  have i: "Capability.ID exampleRoot = ''urn:cap:1''" by (simp add: exampleRoot_def)
  from Verify_root_resolution
         [of exampleProof exampleRoot exampleInvocation "[]" "Capability.ID exampleRoot"
             failingResolver] h
  have failing: "fst (Verify (Some \<lparr>zcaps = Some failingResolver\<rparr>) (Some exampleProof)
               (Some exampleInvocation)) = [Capability.ID exampleRoot] \<and>
        Verify (Some \<lparr>zcaps = Some failingResolver\<rparr>) (Some exampleProof)
          (Some exampleInvocation) =
          ([Capability.ID exampleRoot], Return (Some (ErrInvalidChain
             (ErrResolveRoot (Capability.ID exampleRoot)
                (ErrExternal ''capability not found'')))))"
    by simp
  have s: "snd (Verify (Some \<lparr>zcaps = Some exampleResolver\<rparr>) (Some exampleProof)
                  (Some exampleInvocation)) = Return None"
    by (simp add: example_accepted)
  from Verify_root_resolution
         [of exampleProof exampleRoot exampleInvocation "[]" "Capability.ID exampleRoot"
             failingResolver "Some \<lparr>zcaps = Some exampleResolver\<rparr>" "Some exampleProof"
             "Some exampleInvocation"] s
  have "\<exists>uri root.
      fst (Verify (Some \<lparr>zcaps = Some exampleResolver\<rparr>) (Some exampleProof)
             (Some exampleInvocation)) = [uri] \<and>
      exampleResolver uri = (Some root, None)"
    by auto
  with failing s h i show ?thesis by simp
qed

subsection \<open>The identity of the root\<close>

lemma vault_accepted:
  "Verify (Some \<lparr>zcaps = Some vaultResolver\<rparr>)
     (Some (exampleProof\<lparr>Capability := Some vaultRoot\<rparr>))
     (Some (exampleInvocation\<lparr>ExpectedRootCapability := ''urn:cap:1''\<rparr>)) =
     ([''urn:cap:1''], Return None)"
  by (simp add: Verify_def verifyCapabilityChain_def isInvoker_def vaultResolver_def
        exampleProof_def exampleInvocation_def exampleRoot_def vaultRoot_def)

text \<open>
  C4, as stated, fails: after the resolution the target check (line 134) comes first.
  With an expected target that differs from the root's target, an expected root
  \<open>urn:root:A\<close> and the resolved root \<open>urn:cap:1\<close>, the error names the two targets,
  not the two roots.
\<close>

theorem Verify_root_identity_counterexample:
  "exampleResolver ''urn:cap:1'' = (Some exampleRoot, None) \<and>
   ExpectedRootCapability (exampleInvocation\<lparr>ExpectedTarget := ''urn:edv:vault'',
      ExpectedRootCapability := ''urn:root:A''\<rparr>) \<noteq> [] \<and>
   ExpectedRootCapability (exampleInvocation\<lparr>ExpectedTarget := ''urn:edv:vault'',
      ExpectedRootCapability := ''urn:root:A''\<rparr>) \<noteq> Capability.ID exampleRoot \<and>
   Verify (Some \<lparr>zcaps = Some exampleResolver\<rparr>) (Some exampleProof)
     (Some (exampleInvocation\<lparr>ExpectedTarget := ''urn:edv:vault'',
        ExpectedRootCapability := ''urn:root:A''\<rparr>)) =
     ([''urn:cap:1''],
      Return (Some (ErrInvalidChain (ErrTargetMismatch ''urn:edv:vault'' ''urn:cap:1''))))"
  by (simp add: Verify_def verifyCapabilityChain_def exampleResolver_def
        exampleProof_def exampleInvocation_def exampleRoot_def)

text \<open>
  C4, amended: after the root capability is resolved (the earlier steps pass and the
  resolver returns a root without error): if \<open>ExpectedRootCapability\<close> is non-empty and
  differs from \<open>root.ID\<close>, \<open>Verify\<close> fails, with the root-mismatch error naming both
  values when the target check passes (\<open>ExpectedTarget\<close> is empty or equals
  \<open>root.InvocationTarget.ID\<close>) and with the target-mismatch error otherwise; if
  \<open>ExpectedRootCapability\<close> is empty, \<open>Verify\<close> fails whenever
  \<open>root.InvocationTarget.ID\<close> differs from \<open>root.ID\<close> (with the root-target error when
  the target check passes, the target-mismatch error otherwise); and when
  \<open>ExpectedRootCapability\<close> is non-empty and equals \<open>root.ID\<close> and the target check
  passes, the chain check ends the same way whether or not the root's target equals its
  ID: it succeeds unless entries remain in the chain after the root URI.
\<close>

theorem Verify_root_identity:
  assumes "Capability p = Some cap"
    and "AllowedAction cap = [] \<or> CapabilityAction p = [] \<or>
         CapabilityAction p \<in> set (AllowedAction cap)"
    and "ExpectedAction invo = CapabilityAction p"
    and "validateCapabilityChain cap = None"
    and "capabilityChain cap = Inr chain"
    and "chain = [] \<and> rootURI = Capability.ID cap \<or> (\<exists>rest. chain = UString rootURI # rest)"
    and "resolve rootURI = (Some root, None)"
  shows
    "(ExpectedRootCapability invo \<noteq> [] \<and>
      ExpectedRootCapability invo \<noteq> Capability.ID root \<longrightarrow>
        Verify (Some \<lparr>zcaps = Some resolve\<rparr>) (Some p) (Some invo) =
          ([rootURI], Return (Some (ErrInvalidChain
             (if ExpectedTarget invo = [] \<or>
                 ExpectedTarget invo = InvocationTarget.ID (InvocationTarget root)
              then ErrRootMismatch (ExpectedRootCapability invo) (Capability.ID root)
              else ErrTargetMismatch (ExpectedTarget invo)
                     (InvocationTarget.ID (InvocationTarget root)))))) \<and>
        errorString (ErrRootMismatch (ExpectedRootCapability invo) (Capability.ID root)) =
          ''expected root capability does not match actual root capability: expected=('' @
          ExpectedRootCapability invo @ '') actual=('' @ Capability.ID root @ '')'') \<and>
     (ExpectedRootCapability invo = [] \<and>
      InvocationTarget.ID (InvocationTarget root) \<noteq> Capability.ID root \<longrightarrow>
        Verify (Some \<lparr>zcaps = Some resolve\<rparr>) (Some p) (Some invo) =
          ([rootURI], Return (Some (ErrInvalidChain
             (if ExpectedTarget invo = [] \<or>
                 ExpectedTarget invo = InvocationTarget.ID (InvocationTarget root)
              then ErrRootTarget
              else ErrTargetMismatch (ExpectedTarget invo)
                     (InvocationTarget.ID (InvocationTarget root))))))) \<and>
     (ExpectedRootCapability invo \<noteq> [] \<and> ExpectedRootCapability invo = Capability.ID root \<and>
      (ExpectedTarget invo = [] \<or>
       ExpectedTarget invo = InvocationTarget.ID (InvocationTarget root)) \<longrightarrow>
        verifyCapabilityChain (Some \<lparr>zcaps = Some resolve\<rparr>) cap (CapabilityAction p)
          (Some invo) =
          ([rootURI], if tl chain = [] then Return None else Return (Some ErrMultipleChains)))"
proof -
  note eq = verifyCapabilityChain_resolution [OF assms(2-6), of resolve]
  show ?thesis
  proof (intro conjI impI)
    assume "ExpectedRootCapability invo \<noteq> [] \<and>
      ExpectedRootCapability invo \<noteq> Capability.ID root"
    with eq assms(7) have
      "verifyCapabilityChain (Some \<lparr>zcaps = Some resolve\<rparr>) cap (CapabilityAction p)
         (Some invo) =
       ([rootURI], Return (Some
             (if ExpectedTarget invo = [] \<or>
                 ExpectedTarget invo = InvocationTarget.ID (InvocationTarget root)
              then ErrRootMismatch (ExpectedRootCapability invo) (Capability.ID root)
              else ErrTargetMismatch (ExpectedTarget invo)
                     (InvocationTarget.ID (InvocationTarget root)))))"
      by auto
    then show "Verify (Some \<lparr>zcaps = Some resolve\<rparr>) (Some p) (Some invo) =
          ([rootURI], Return (Some (ErrInvalidChain
             (if ExpectedTarget invo = [] \<or>
                 ExpectedTarget invo = InvocationTarget.ID (InvocationTarget root)
              then ErrRootMismatch (ExpectedRootCapability invo) (Capability.ID root)
              else ErrTargetMismatch (ExpectedTarget invo)
                     (InvocationTarget.ID (InvocationTarget root))))))"
      by (rule Verify_chain_error [OF assms(1)])
  next
    show "errorString (ErrRootMismatch (ExpectedRootCapability invo) (Capability.ID root)) =
          ''expected root capability does not match actual root capability: expected=('' @
          ExpectedRootCapability invo @ '') actual=('' @ Capability.ID root @ '')''"
      by simp
  next
    assume "ExpectedRootCapability invo = [] \<and>
      InvocationTarget.ID (InvocationTarget root) \<noteq> Capability.ID root"
    with eq assms(7) have
      "verifyCapabilityChain (Some \<lparr>zcaps = Some resolve\<rparr>) cap (CapabilityAction p)
         (Some invo) =
       ([rootURI], Return (Some
             (if ExpectedTarget invo = [] \<or>
                 ExpectedTarget invo = InvocationTarget.ID (InvocationTarget root)
              then ErrRootTarget
              else ErrTargetMismatch (ExpectedTarget invo)
                     (InvocationTarget.ID (InvocationTarget root)))))"
      by auto
    then show "Verify (Some \<lparr>zcaps = Some resolve\<rparr>) (Some p) (Some invo) =
          ([rootURI], Return (Some (ErrInvalidChain
             (if ExpectedTarget invo = [] \<or>
                 ExpectedTarget invo = InvocationTarget.ID (InvocationTarget root)
              then ErrRootTarget
              else ErrTargetMismatch (ExpectedTarget invo)
                     (InvocationTarget.ID (InvocationTarget root))))))"
      by (rule Verify_chain_error [OF assms(1)])
  next
    assume "ExpectedRootCapability invo \<noteq> [] \<and>
      ExpectedRootCapability invo = Capability.ID root \<and>
      (ExpectedTarget invo = [] \<or>
       ExpectedTarget invo = InvocationTarget.ID (InvocationTarget root))"
    with eq assms(7) show
      "verifyCapabilityChain (Some \<lparr>zcaps = Some resolve\<rparr>) cap (CapabilityAction p)
          (Some invo) =
          ([rootURI], if tl chain = [] then Return None else Return (Some ErrMultipleChains))"
      by auto
  qed
qed

theorem Verify_root_identity_witness:
  "exampleResolver ''urn:cap:1'' = (Some exampleRoot, None) \<and>
   vaultResolver ''urn:cap:1'' = (Some vaultRoot, None) \<and>
   Capability.ID exampleRoot = ''urn:cap:1'' \<and> Capability.ID vaultRoot = ''urn:cap:1'' \<and>
   InvocationTarget.ID (InvocationTarget vaultRoot) = ''urn:edv:vault'' \<and>
   Verify (Some \<lparr>zcaps = Some exampleResolver\<rparr>) (Some exampleProof)
     (Some (exampleInvocation\<lparr>ExpectedRootCapability := ''urn:root:A''\<rparr>)) =
     ([''urn:cap:1''],
      Return (Some (ErrInvalidChain (ErrRootMismatch ''urn:root:A'' ''urn:cap:1'')))) \<and>
   Verify (Some \<lparr>zcaps = Some exampleResolver\<rparr>) (Some exampleProof)
     (Some (exampleInvocation\<lparr>ExpectedTarget := ''urn:edv:vault'',
        ExpectedRootCapability := ''urn:root:A''\<rparr>)) =
     ([''urn:cap:1''],
      Return (Some (ErrInvalidChain (ErrTargetMismatch ''urn:edv:vault'' ''urn:cap:1'')))) \<and>
   Verify (Some \<lparr>zcaps = Some vaultResolver\<rparr>)
     (Some (exampleProof\<lparr>Capability := Some vaultRoot\<rparr>)) (Some exampleInvocation) =
     ([''urn:cap:1''], Return (Some (ErrInvalidChain ErrRootTarget))) \<and>
   verifyCapabilityChain (Some \<lparr>zcaps = Some vaultResolver\<rparr>) vaultRoot ''read''
     (Some (exampleInvocation\<lparr>ExpectedRootCapability := ''urn:cap:1''\<rparr>)) =
     ([''urn:cap:1''], Return None) \<and>
   Verify (Some \<lparr>zcaps = Some vaultResolver\<rparr>)
     (Some (exampleProof\<lparr>Capability := Some vaultRoot\<rparr>))
     (Some (exampleInvocation\<lparr>ExpectedRootCapability := ''urn:cap:1''\<rparr>)) =
     ([''urn:cap:1''], Return None)"
proof -
  let ?mismatch = "exampleInvocation\<lparr>ExpectedRootCapability := ''urn:root:A''\<rparr>"
  let ?expected = "exampleInvocation\<lparr>ExpectedRootCapability := ''urn:cap:1''\<rparr>"
  let ?vaultProof = "exampleProof\<lparr>Capability := Some vaultRoot\<rparr>"
  have r: "exampleResolver ''urn:cap:1'' = (Some exampleRoot, None)"
    "vaultResolver ''urn:cap:1'' = (Some vaultRoot, None)"
    by (simp_all add: exampleResolver_def vaultResolver_def)
  have i: "Capability.ID exampleRoot = ''urn:cap:1''" "Capability.ID vaultRoot = ''urn:cap:1''"
    "InvocationTarget.ID (InvocationTarget vaultRoot) = ''urn:edv:vault''"
    by (simp_all add: exampleRoot_def vaultRoot_def)
  have a: "Verify (Some \<lparr>zcaps = Some exampleResolver\<rparr>) (Some exampleProof) (Some ?mismatch) =
     ([''urn:cap:1''],
      Return (Some (ErrInvalidChain (ErrRootMismatch ''urn:root:A'' ''urn:cap:1''))))"
    using Verify_root_identity
            [of exampleProof exampleRoot ?mismatch "[]" "''urn:cap:1''" exampleResolver
                exampleRoot] r
    by (simp add: exampleProof_def exampleRoot_def exampleInvocation_def)
  have a': "Verify (Some \<lparr>zcaps = Some exampleResolver\<rparr>) (Some exampleProof)
     (Some (exampleInvocation\<lparr>ExpectedTarget := ''urn:edv:vault'',
        ExpectedRootCapability := ''urn:root:A''\<rparr>)) =
     ([''urn:cap:1''],
      Return (Some (ErrInvalidChain (ErrTargetMismatch ''urn:edv:vault'' ''urn:cap:1''))))"
    using Verify_root_identity
            [of exampleProof exampleRoot
                "exampleInvocation\<lparr>ExpectedTarget := ''urn:edv:vault'',
                   ExpectedRootCapability := ''urn:root:A''\<rparr>"
                "[]" "''urn:cap:1''" exampleResolver exampleRoot] r
    by (simp add: exampleProof_def exampleRoot_def exampleInvocation_def)
  have b: "Verify (Some \<lparr>zcaps = Some vaultResolver\<rparr>) (Some ?vaultProof)
             (Some exampleInvocation) =
     ([''urn:cap:1''], Return (Some (ErrInvalidChain ErrRootTarget)))"
    using Verify_root_identity
            [of ?vaultProof vaultRoot exampleInvocation "[]" "''urn:cap:1''" vaultResolver
                vaultRoot] r
    by (simp add: exampleProof_def exampleRoot_def vaultRoot_def exampleInvocation_def)
  have c: "verifyCapabilityChain (Some \<lparr>zcaps = Some vaultResolver\<rparr>) vaultRoot ''read''
             (Some ?expected) = ([''urn:cap:1''], Return None)"
    using Verify_root_identity
            [of ?vaultProof vaultRoot ?expected "[]" "''urn:cap:1''" vaultResolver vaultRoot] r
    by (simp add: exampleProof_def exampleRoot_def vaultRoot_def exampleInvocation_def)
  from r i a a' b c vault_accepted show ?thesis by simp
qed

subsection \<open>Chains of depth two and more\<close>

lemma verifyCapabilityChain_deep:
  assumes "capabilityChain cap = Inr (first # second # others)"
  shows "snd (verifyCapabilityChain v cap a invocation) \<noteq> Return None"
  using assms
  by (auto simp: verifyCapabilityChain_def Let_def
           split: if_splits option.splits sum.splits untyped.splits prod.splits)

text \<open>
  C6, as stated, fails: the depth check (line 162) is the last step, and every earlier
  step stops the verification with its own error. A capability delegated at depth two,
  whose action, target, root-identity and invoker data are all in order, is rejected with
  the resolution error when the resolver does not know its root.
\<close>

theorem Verify_deep_chain_counterexample:
  "capabilityChain deepCapability =
     Inr [UString ''urn:cap:1'', UOther ''map[id:urn:cap:2]''] \<and>
   CapabilityAction exampleProof \<in> set (AllowedAction deepCapability) \<and>
   ExpectedAction exampleInvocation = CapabilityAction exampleProof \<and>
   ExpectedTarget exampleInvocation = [] \<and>
   isInvoker deepCapability (CapabilityInvocation.VerificationMethod exampleInvocation) =
     Return (True, None) \<and>
   Verify (Some \<lparr>zcaps = Some failingResolver\<rparr>)
     (Some (exampleProof\<lparr>Capability := Some deepCapability\<rparr>)) (Some exampleInvocation) =
     ([''urn:cap:1''], Return (Some (ErrInvalidChain
        (ErrResolveRoot ''urn:cap:1'' (ErrExternal ''capability not found'')))))"
  by (simp add: Verify_def verifyCapabilityChain_def isInvoker_def failingResolver_def
        exampleProof_def exampleInvocation_def exampleRoot_def deepCapability_def)

text \<open>
  C6, amended: for every capability whose delegation chain holds two entries or more,
  \<open>Verify\<close> never succeeds (for every verifier and invocation); and when the chain
  starts with a string root URI and every step before the depth check passes (action
  scoping, expected action, chain validation, resolution of the root to a non-nil
  capability, target check, root-identity check), \<open>Verify\<close> fails with the
  \<^verbatim>\<open>multiple capabilityChains not supported yet\<close> error, whatever the invoker list and
  the verification method are.
\<close>

theorem Verify_deep_chain:
  "(Capability p = Some cap \<and> capabilityChain cap = Inr (first # second # others) \<longrightarrow>
      snd (Verify v (Some p) invocation) \<noteq> Return None) \<and>
   (Capability p = Some cap \<and>
    (AllowedAction cap = [] \<or> CapabilityAction p = [] \<or>
     CapabilityAction p \<in> set (AllowedAction cap)) \<and>
    ExpectedAction invo = CapabilityAction p \<and>
    validateCapabilityChain cap = None \<and>
    capabilityChain cap = Inr (UString rootURI # second # others) \<and>
    resolve rootURI = (Some root, None) \<and>
    (ExpectedTarget invo = [] \<or>
     ExpectedTarget invo = InvocationTarget.ID (InvocationTarget root)) \<and>
    (if ExpectedRootCapability invo = []
     then InvocationTarget.ID (InvocationTarget root) = Capability.ID root
     else ExpectedRootCapability invo = Capability.ID root) \<longrightarrow>
      Verify (Some \<lparr>zcaps = Some resolve\<rparr>) (Some p) (Some invo) =
        ([rootURI], Return (Some (ErrInvalidChain ErrMultipleChains))) \<and>
      errorString (ErrInvalidChain ErrMultipleChains) =
        ''invalid capability chain: multiple capabilityChains not supported yet'')"
proof (intro conjI impI)
  assume h: "Capability p = Some cap \<and> capabilityChain cap = Inr (first # second # others)"
  then have "snd (verifyCapabilityChain v cap (CapabilityAction p) invocation) \<noteq> Return None"
    by (intro verifyCapabilityChain_deep) simp
  with h show "snd (Verify v (Some p) invocation) \<noteq> Return None"
    by (auto simp: Verify_def split: prod.splits outcome.splits option.splits)
next
  assume h: "Capability p = Some cap \<and>
    (AllowedAction cap = [] \<or> CapabilityAction p = [] \<or>
     CapabilityAction p \<in> set (AllowedAction cap)) \<and>
    ExpectedAction invo = CapabilityAction p \<and>
    validateCapabilityChain cap = None \<and>
    capabilityChain cap = Inr (UString rootURI # second # others) \<and>
    resolve rootURI = (Some root, None) \<and>
    (ExpectedTarget invo = [] \<or>
     ExpectedTarget invo = InvocationTarget.ID (InvocationTarget root)) \<and>
    (if ExpectedRootCapability invo = []
     then InvocationTarget.ID (InvocationTarget root) = Capability.ID root
     else ExpectedRootCapability invo = Capability.ID root)"
  then have "verifyCapabilityChain (Some \<lparr>zcaps = Some resolve\<rparr>) cap (CapabilityAction p)
               (Some invo) = ([rootURI], Return (Some ErrMultipleChains))"
    using verifyCapabilityChain_resolution
            [of cap "CapabilityAction p" invo "UString rootURI # second # others" rootURI resolve]
    by (auto split: if_splits)
  with h show "Verify (Some \<lparr>zcaps = Some resolve\<rparr>) (Some p) (Some invo) =
        ([rootURI], Return (Some (ErrInvalidChain ErrMultipleChains)))"
    by (intro Verify_chain_error) simp_all
next
  show "errorString (ErrInvalidChain ErrMultipleChains) =
        ''invalid capability chain: multiple capabilityChains not supported yet''"
    by simp
qed

theorem Verify_deep_chain_witness:
  "Capability (exampleProof\<lparr>Capability := Some deepCapability\<rparr>) = Some deepCapability \<and>
   capabilityChain deepCapability =
     Inr [UString ''urn:cap:1'', UOther ''map[id:urn:cap:2]''] \<and>
   CapabilityAction exampleProof \<in> set (AllowedAction deepCapability) \<and>
   ExpectedAction exampleInvocation = CapabilityAction exampleProof \<and>
   validateCapabilityChain deepCapability = None \<and>
   exampleResolver ''urn:cap:1'' = (Some exampleRoot, None) \<and>
   ExpectedTarget exampleInvocation = [] \<and>
   ExpectedRootCapability exampleInvocation = [] \<and>
   InvocationTarget.ID (InvocationTarget exampleRoot) = Capability.ID exampleRoot \<and>
   isInvoker deepCapability (CapabilityInvocation.VerificationMethod exampleInvocation) =
     Return (True, None) \<and>
   Verify (Some \<lparr>zcaps = Some exampleResolver\<rparr>)
     (Some (exampleProof\<lparr>Capability := Some deepCapability\<rparr>)) (Some exampleInvocation) =
     ([''urn:cap:1''], Return (Some (ErrInvalidChain ErrMultipleChains))) \<and>
   snd (Verify None (Some (exampleProof\<lparr>Capability := Some deepCapability\<rparr>)) None)
     \<noteq> Return None"
proof -
  let ?p = "exampleProof\<lparr>Capability := Some deepCapability\<rparr>"
  have h: "Capability ?p = Some deepCapability"
    "capabilityChain deepCapability =
       Inr [UString ''urn:cap:1'', UOther ''map[id:urn:cap:2]'']"
    "CapabilityAction exampleProof \<in> set (AllowedAction deepCapability)"
    "ExpectedAction exampleInvocation = CapabilityAction exampleProof"
    "validateCapabilityChain deepCapability = None"
    "exampleResolver ''urn:cap:1'' = (Some exampleRoot, None)"
    "ExpectedTarget exampleInvocation = []"
    "ExpectedRootCapability exampleInvocation = []"
    "InvocationTarget.ID (InvocationTarget exampleRoot) = Capability.ID exampleRoot"
    by (simp_all add: exampleProof_def exampleRoot_def exampleInvocation_def
          deepCapability_def exampleResolver_def)
  have i: "isInvoker deepCapability
             (CapabilityInvocation.VerificationMethod exampleInvocation) = Return (True, None)"
    by (simp add: isInvoker_def deepCapability_def exampleRoot_def exampleInvocation_def)
  have pa: "CapabilityAction ?p = CapabilityAction exampleProof" by simp
  from Verify_deep_chain
         [of ?p deepCapability "UString ''urn:cap:1''" "UOther ''map[id:urn:cap:2]''" "[]"
             None None exampleInvocation "''urn:cap:1''" exampleResolver exampleRoot] h pa
  have "Verify (Some \<lparr>zcaps = Some exampleResolver\<rparr>) (Some ?p) (Some exampleInvocation) =
          ([''urn:cap:1''], Return (Some (ErrInvalidChain ErrMultipleChains))) \<and>
        snd (Verify None (Some ?p) None) \<noteq> Return None"
    by simp
  with h i show ?thesis by simp
qed

subsection \<open>A root capability that names itself\<close>

text \<open>
  C7, as stated, fails: the three conditions say nothing of the resolver, the actions or
  the invocation's expectations. The scenario's capability has an empty chain, is its own
  target and lists the invocation's verification method, and is rejected when the
  resolver does not know it.
\<close>

theorem Verify_root_self_reference_counterexample:
  "capabilityChain exampleRoot = Inr [] \<and>
   InvocationTarget.ID (InvocationTarget exampleRoot) = Capability.ID exampleRoot \<and>
   invokers exampleRoot = Inr [''did:ex:alice''] \<and>
   CapabilityInvocation.VerificationMethod exampleInvocation =
     Some \<lparr>VerificationMethod.ID = ''did:ex:alice'', Controller = []\<rparr> \<and>
   Verify (Some \<lparr>zcaps = Some failingResolver\<rparr>) (Some exampleProof) (Some exampleInvocation) =
     ([''urn:cap:1''], Return (Some (ErrInvalidChain
        (ErrResolveRoot ''urn:cap:1'' (ErrExternal ''capability not found'')))))"
  by (simp add: Verify_def verifyCapabilityChain_def failingResolver_def
        exampleProof_def exampleInvocation_def exampleRoot_def)

text \<open>
  C7, amended: if a capability has an empty delegation chain, its own
  \<open>InvocationTarget.ID\<close> equals its \<open>ID\<close>, and its invoker list contains the
  invocation's verification method ID, and moreover the chain validation passes, the
  intended action passes action scoping and equals the expected action, the verifier's
  resolver resolves the capability's ID without error to a root with the same \<open>ID\<close> and
  \<open>InvocationTarget.ID\<close> (the capability itself, for one), and the invocation's expected
  target and expected root capability are each empty or equal to that ID, then \<open>Verify\<close>
  succeeds, after one call of the resolver.
\<close>

theorem Verify_root_self_reference:
  assumes "Capability p = Some cap"
    and "capabilityChain cap = Inr []"
    and "InvocationTarget.ID (InvocationTarget cap) = Capability.ID cap"
    and "invokers cap = Inr invs"
    and "CapabilityInvocation.VerificationMethod invo = Some vm"
    and "VerificationMethod.ID vm \<in> set invs"
    and "AllowedAction cap = [] \<or> CapabilityAction p = [] \<or>
         CapabilityAction p \<in> set (AllowedAction cap)"
    and "ExpectedAction invo = CapabilityAction p"
    and "validateCapabilityChain cap = None"
    and "resolve (Capability.ID cap) = (Some root, None)"
    and "Capability.ID root = Capability.ID cap"
    and "InvocationTarget.ID (InvocationTarget root) = InvocationTarget.ID (InvocationTarget cap)"
    and "ExpectedTarget invo = [] \<or> ExpectedTarget invo = Capability.ID cap"
    and "ExpectedRootCapability invo = [] \<or> ExpectedRootCapability invo = Capability.ID cap"
  shows "Verify (Some \<lparr>zcaps = Some resolve\<rparr>) (Some p) (Some invo) =
           ([Capability.ID cap], Return None)"
proof -
  have "verifyCapabilityChain (Some \<lparr>zcaps = Some resolve\<rparr>) cap (CapabilityAction p)
          (Some invo) = ([Capability.ID cap], Return None)"
    using verifyCapabilityChain_resolution
            [OF assms(7,8,9,2), of "Capability.ID cap" resolve] assms(3,10-14)
    by auto
  moreover have "isInvoker cap (CapabilityInvocation.VerificationMethod invo) =
                   Return (True, None)"
    using assms(4-6) by (auto simp: isInvoker_def stringsContain_iff Let_def)
  ultimately show ?thesis
    using assms(1) by (simp add: Verify_def)
qed

theorem Verify_root_self_reference_witness:
  "Capability exampleProof = Some exampleRoot \<and>
   capabilityChain exampleRoot = Inr [] \<and>
   InvocationTarget.ID (InvocationTarget exampleRoot) = Capability.ID exampleRoot \<and>
   invokers exampleRoot = Inr [''did:ex:alice''] \<and>
   CapabilityInvocation.VerificationMethod exampleInvocation =
     Some \<lparr>VerificationMethod.ID = ''did:ex:alice'', Controller = []\<rparr> \<and>
   CapabilityAction exampleProof \<in> set (AllowedAction exampleRoot) \<and>
   ExpectedAction exampleInvocation = CapabilityAction exampleProof \<and>
   validateCapabilityChain exampleRoot = None \<and>
   exampleResolver (Capability.ID exampleRoot) = (Some exampleRoot, None) \<and>
   ExpectedTarget exampleInvocation = [] \<and>
   ExpectedRootCapability exampleInvocation = [] \<and>
   Verify (Some \<lparr>zcaps = Some exampleResolver\<rparr>) (Some exampleProof) (Some exampleInvocation) =
     ([''urn:cap:1''], Return None)"
proof -
  have h: "Capability exampleProof = Some exampleRoot"
    "capabilityChain exampleRoot = Inr []"
    "InvocationTarget.ID (InvocationTarget exampleRoot) = Capability.ID exampleRoot"
    "invokers exampleRoot = Inr [''did:ex:alice'']"
    "CapabilityInvocation.VerificationMethod exampleInvocation =
       Some \<lparr>VerificationMethod.ID = ''did:ex:alice'', Controller = []\<rparr>"
    "CapabilityAction exampleProof \<in> set (AllowedAction exampleRoot)"
    "ExpectedAction exampleInvocation = CapabilityAction exampleProof"
    "validateCapabilityChain exampleRoot = None"
    "exampleResolver (Capability.ID exampleRoot) = (Some exampleRoot, None)"
    "ExpectedTarget exampleInvocation = []"
    "ExpectedRootCapability exampleInvocation = []"
    by (simp_all add: exampleProof_def exampleRoot_def exampleInvocation_def
          exampleResolver_def)
  have i: "Capability.ID exampleRoot = ''urn:cap:1''" by (simp add: exampleRoot_def)
  from Verify_root_self_reference
         [of exampleProof exampleRoot "[''did:ex:alice'']" exampleInvocation
             "\<lparr>VerificationMethod.ID = ''did:ex:alice'', Controller = []\<rparr>"
             exampleResolver exampleRoot] h
  have "Verify (Some \<lparr>zcaps = Some exampleResolver\<rparr>) (Some exampleProof)
          (Some exampleInvocation) = ([Capability.ID exampleRoot], Return None)"
    by simp
  with h i show ?thesis by simp
qed

subsection \<open>What is read of the resolved root\<close>

text \<open>
  Two resolvers that fail on the same URIs with the same errors, and whose roots agree
  on \<open>ID\<close> and \<open>InvocationTarget.ID\<close>, cannot be told apart by the chain check.
\<close>

lemma verifyCapabilityChain_root_fields:
  assumes "\<forall>uri. snd (r1 uri) = snd (r2 uri) \<and>
             rel_option (\<lambda>a b. Capability.ID a = Capability.ID b \<and>
                 InvocationTarget.ID (InvocationTarget a) =
                 InvocationTarget.ID (InvocationTarget b))
               (fst (r1 uri)) (fst (r2 uri))"
  shows "verifyCapabilityChain (Some \<lparr>zcaps = Some r1\<rparr>) cap a invocation =
         verifyCapabilityChain (Some \<lparr>zcaps = Some r2\<rparr>) cap a invocation"
proof -
  have key: "(\<exists>err x y. r1 uri = (x, Some err) \<and> r2 uri = (y, Some err)) \<or>
             (r1 uri = (None, None) \<and> r2 uri = (None, None)) \<or>
             (\<exists>x y. r1 uri = (Some x, None) \<and> r2 uri = (Some y, None) \<and>
                Capability.ID x = Capability.ID y \<and>
                InvocationTarget.ID (InvocationTarget x) =
                InvocationTarget.ID (InvocationTarget y))" for uri
  proof -
    from assms have "snd (r1 uri) = snd (r2 uri)"
      and "rel_option (\<lambda>a b. Capability.ID a = Capability.ID b \<and>
                 InvocationTarget.ID (InvocationTarget a) =
                 InvocationTarget.ID (InvocationTarget b))
               (fst (r1 uri)) (fst (r2 uri))"
      by simp_all
    then show ?thesis
      by (cases "r1 uri"; cases "r2 uri"; cases "fst (r1 uri)"; cases "fst (r2 uri)";
          cases "snd (r1 uri)") auto
  qed
  show ?thesis
  proof (cases "capabilityChain cap")
    case (Inl err)
    then show ?thesis
      by (simp add: verifyCapabilityChain_def split: option.splits)
  next
    case (Inr chain)
    show ?thesis
    proof (cases chain)
      case Nil
      with Inr key [of "Capability.ID cap"] show ?thesis
        by (auto simp: verifyCapabilityChain_def split: option.splits)
    next
      case (Cons untyped rest)
      show ?thesis
      proof (cases untyped)
        case (UString s)
        with Inr Cons key [of s] show ?thesis
          by (auto simp: verifyCapabilityChain_def split: option.splits)
      next
        case (UOther r)
        with Inr Cons show ?thesis
          by (simp add: verifyCapabilityChain_def split: option.splits)
      qed
    qed
  qed
qed

lemma Verify_root_fields:
  assumes "\<forall>uri. snd (r1 uri) = snd (r2 uri) \<and>
             rel_option (\<lambda>a b. Capability.ID a = Capability.ID b \<and>
                 InvocationTarget.ID (InvocationTarget a) =
                 InvocationTarget.ID (InvocationTarget b))
               (fst (r1 uri)) (fst (r2 uri))"
  shows "Verify (Some \<lparr>zcaps = Some r1\<rparr>) pf invocation =
         Verify (Some \<lparr>zcaps = Some r2\<rparr>) pf invocation"
  unfolding Verify_def verifyCapabilityChain_root_fields [OF assms] ..

text \<open>
  C9: the outcome of \<open>Verify\<close> (the result and the resolver calls made) does not depend
  on the \<open>AllowedAction\<close> list or the invoker list of the root the resolver returns:
  replacing both, in every root the resolver returns, leaves the outcome unchanged. More
  generally only \<open>root.ID\<close> and \<open>root.InvocationTarget.ID\<close> are consulted: two
  resolvers whose errors agree and whose roots agree on these two fields give the same
  outcome. The invoking capability is the one held by the proof, which is the same in
  both runs; the invoker check reads its invoker list, never the root's.
\<close>

theorem Verify_independent_of_root_fields:
  "Verify (Some \<lparr>zcaps = Some (\<lambda>uri. case resolve uri of (root, err) \<Rightarrow>
       (map_option (\<lambda>r. r\<lparr>AllowedAction := allowed uri, invokers := invs uri\<rparr>) root, err))\<rparr>)
     pf invocation =
   Verify (Some \<lparr>zcaps = Some resolve\<rparr>) pf invocation \<and>
   ((\<forall>uri. snd (ra uri) = snd (rb uri) \<and>
       rel_option (\<lambda>a b. Capability.ID a = Capability.ID b \<and>
           InvocationTarget.ID (InvocationTarget a) =
           InvocationTarget.ID (InvocationTarget b))
         (fst (ra uri)) (fst (rb uri))) \<longrightarrow>
    Verify (Some \<lparr>zcaps = Some ra\<rparr>) pf invocation =
    Verify (Some \<lparr>zcaps = Some rb\<rparr>) pf invocation)"
proof (intro conjI impI)
  show "Verify (Some \<lparr>zcaps = Some (\<lambda>uri. case resolve uri of (root, err) \<Rightarrow>
       (map_option (\<lambda>r. r\<lparr>AllowedAction := allowed uri, invokers := invs uri\<rparr>) root, err))\<rparr>)
     pf invocation =
   Verify (Some \<lparr>zcaps = Some resolve\<rparr>) pf invocation"
  proof (rule Verify_root_fields, rule allI)
    fix uri
    show "snd (case resolve uri of (root, err) \<Rightarrow>
            (map_option (\<lambda>r. r\<lparr>AllowedAction := allowed uri, invokers := invs uri\<rparr>) root,
             err)) = snd (resolve uri) \<and>
          rel_option (\<lambda>a b. Capability.ID a = Capability.ID b \<and>
              InvocationTarget.ID (InvocationTarget a) =
              InvocationTarget.ID (InvocationTarget b))
            (fst (case resolve uri of (root, err) \<Rightarrow>
               (map_option (\<lambda>r. r\<lparr>AllowedAction := allowed uri, invokers := invs uri\<rparr>) root,
                err)))
            (fst (resolve uri))"
      by (cases "resolve uri"; cases "fst (resolve uri)") auto
  qed
next
  assume "\<forall>uri. snd (ra uri) = snd (rb uri) \<and>
       rel_option (\<lambda>a b. Capability.ID a = Capability.ID b \<and>
           InvocationTarget.ID (InvocationTarget a) =
           InvocationTarget.ID (InvocationTarget b))
         (fst (ra uri)) (fst (rb uri))"
  then show "Verify (Some \<lparr>zcaps = Some ra\<rparr>) pf invocation =
    Verify (Some \<lparr>zcaps = Some rb\<rparr>) pf invocation"
    by (rule Verify_root_fields)
qed

theorem Verify_independent_of_root_fields_witness:
  "Verify (Some \<lparr>zcaps = Some (\<lambda>uri. case exampleResolver uri of (root, err) \<Rightarrow>
       (map_option (\<lambda>r. r\<lparr>AllowedAction := [''write''], invokers := Inr []\<rparr>) root, err))\<rparr>)
     (Some exampleProof) (Some exampleInvocation) = ([''urn:cap:1''], Return None) \<and>
   (\<forall>uri. snd (exampleResolver uri) =
            snd (if uri = ''urn:cap:1''
                 then (Some (exampleRoot\<lparr>validateCapabilityChain :=
                               Some (ErrExternal ''malformed chain'')\<rparr>), None)
                 else (None, Some (ErrExternal ''capability not found'')))) \<and>
   Verify (Some \<lparr>zcaps = Some (\<lambda>uri. if uri = ''urn:cap:1''
                 then (Some (exampleRoot\<lparr>validateCapabilityChain :=
                               Some (ErrExternal ''malformed chain'')\<rparr>), None)
                 else (None, Some (ErrExternal ''capability not found'')))\<rparr>)
     (Some exampleProof) (Some exampleInvocation) = ([''urn:cap:1''], Return None)"
proof -
  let ?other = "\<lambda>uri. if uri = ''urn:cap:1''
                 then (Some (exampleRoot\<lparr>validateCapabilityChain :=
                               Some (ErrExternal ''malformed chain'')\<rparr>), None)
                 else (None, Some (ErrExternal ''capability not found''))"
  have h: "\<forall>uri. snd (exampleResolver uri) = snd (?other uri) \<and>
       rel_option (\<lambda>a b. Capability.ID a = Capability.ID b \<and>
           InvocationTarget.ID (InvocationTarget a) =
           InvocationTarget.ID (InvocationTarget b))
         (fst (exampleResolver uri)) (fst (?other uri))"
    by (simp add: exampleResolver_def)
  note t = Verify_independent_of_root_fields
             [where resolve = exampleResolver and allowed = "\<lambda>uri. [''write'']"
                and invs = "\<lambda>uri. Inr []" and pf = "Some exampleProof"
                and invocation = "Some exampleInvocation" and ra = exampleResolver
                and rb = "?other"]
  from t have a: "Verify (Some \<lparr>zcaps = Some (\<lambda>uri. case exampleResolver uri of
         (root, err) \<Rightarrow>
           (map_option (\<lambda>r. r\<lparr>AllowedAction := [''write''], invokers := Inr []\<rparr>) root,
            err))\<rparr>)
       (Some exampleProof) (Some exampleInvocation) = ([''urn:cap:1''], Return None)"
    by (simp add: example_accepted)
  from t h have b: "Verify (Some \<lparr>zcaps = Some ?other\<rparr>) (Some exampleProof)
       (Some exampleInvocation) = ([''urn:cap:1''], Return None)"
    by (simp add: example_accepted)
  from a b h show ?thesis by simp
qed

subsection \<open>Nil pointers\<close>

lemma verifyCapabilityChain_no_panic:
  assumes "zcaps vr = Some resolve"
    and "\<forall>uri c. resolve uri = (c, None) \<longrightarrow> c \<noteq> None"
  shows "snd (verifyCapabilityChain (Some vr) cap a (Some invo)) \<noteq> Panic"
proof -
  have nn: "resolve uri \<noteq> (None, None)" for uri
    using assms(2) by blast
  show ?thesis
  proof (cases "capabilityChain cap")
    case (Inl err)
    then show ?thesis
      by (simp add: verifyCapabilityChain_def split: option.splits)
  next
    case (Inr chain)
    show ?thesis
    proof (cases chain)
      case Nil
      with Inr assms(1) nn [of "Capability.ID cap"] show ?thesis
        by (cases "resolve (Capability.ID cap)")
           (auto simp: verifyCapabilityChain_def split: option.splits)
    next
      case (Cons untyped rest)
      show ?thesis
      proof (cases untyped)
        case (UString s)
        with Inr Cons assms(1) nn [of s] show ?thesis
          by (cases "resolve s") (auto simp: verifyCapabilityChain_def split: option.splits)
      next
        case (UOther r)
        with Inr Cons show ?thesis
          by (simp add: verifyCapabilityChain_def split: option.splits)
      qed
    qed
  qed
qed

text \<open>
  C10, as stated, fails: the receiver's resolver is read at line 126 without a guard, and
  \<open>NewVerifier\<close> accepts a nil resolver. With a non-nil proof, capability, invocation and
  verification method, \<open>Verify\<close> on the verifier made by \<open>NewVerifier(nil)\<close> panics when
  it reaches the resolution.
\<close>

theorem Verify_nil_safety_counterexample:
  "NewVerifier None = (Some \<lparr>zcaps = None\<rparr>, None) \<and>
   Capability exampleProof = Some exampleRoot \<and>
   CapabilityInvocation.VerificationMethod exampleInvocation =
     Some \<lparr>VerificationMethod.ID = ''did:ex:alice'', Controller = []\<rparr> \<and>
   Verify (fst (NewVerifier None)) (Some exampleProof) (Some exampleInvocation) = ([], Panic)"
  by (simp add: NewVerifier_def Verify_def verifyCapabilityChain_def exampleProof_def
        exampleInvocation_def exampleRoot_def)

text \<open>
  C10, amended: \<open>Verify\<close> guards only \<open>proof.Capability\<close> against nil. A nil proof
  panics at once; a nil invocation panics as soon as action scoping passes; a nil
  \<open>VerificationMethod\<close> panics once the chain check has passed and the invoker list has
  been fetched. With a non-nil verifier that holds a non-nil resolver, a non-nil proof, a
  non-nil invocation and a non-nil \<open>invocation.VerificationMethod\<close>, and a resolver that
  returns a non-nil capability whenever it returns no error, no nil dereference is
  reachable in \<open>Verify\<close>, \<open>verifyCapabilityChain\<close> or \<open>isInvoker\<close>.
\<close>

theorem Verify_nil_safety:
  "Verify v None invocation = ([], Panic) \<and>
   (Capability p = Some cap \<and>
    (AllowedAction cap = [] \<or> CapabilityAction p = [] \<or>
     CapabilityAction p \<in> set (AllowedAction cap)) \<longrightarrow>
      Verify v (Some p) None = ([], Panic)) \<and>
   (Capability p = Some cap \<and>
    verifyCapabilityChain v cap (CapabilityAction p) (Some invo) = (calls, Return None) \<and>
    invokers cap = Inr invs \<and>
    CapabilityInvocation.VerificationMethod invo = None \<longrightarrow>
      Verify v (Some p) (Some invo) = (calls, Panic)) \<and>
   (zcaps vr = Some resolve \<and>
    (\<forall>uri c. resolve uri = (c, None) \<longrightarrow> c \<noteq> None) \<and>
    CapabilityInvocation.VerificationMethod invo = Some vm \<longrightarrow>
      snd (Verify (Some vr) (Some p) (Some invo)) \<noteq> Panic)"
proof (intro conjI impI)
  show "Verify v None invocation = ([], Panic)"
    by (simp add: Verify_def)
next
  assume "Capability p = Some cap \<and>
    (AllowedAction cap = [] \<or> CapabilityAction p = [] \<or>
     CapabilityAction p \<in> set (AllowedAction cap))"
  then show "Verify v (Some p) None = ([], Panic)"
    by (auto simp: Verify_def verifyCapabilityChain_def stringsContain_iff)
next
  assume "Capability p = Some cap \<and>
    verifyCapabilityChain v cap (CapabilityAction p) (Some invo) = (calls, Return None) \<and>
    invokers cap = Inr invs \<and>
    CapabilityInvocation.VerificationMethod invo = None"
  then show "Verify v (Some p) (Some invo) = (calls, Panic)"
    by (simp add: Verify_def isInvoker_def)
next
  assume h: "zcaps vr = Some resolve \<and>
    (\<forall>uri c. resolve uri = (c, None) \<longrightarrow> c \<noteq> None) \<and>
    CapabilityInvocation.VerificationMethod invo = Some vm"
  show "snd (Verify (Some vr) (Some p) (Some invo)) \<noteq> Panic"
  proof (cases "Capability p")
    case None
    then show ?thesis by (simp add: Verify_def)
  next
    case (Some cap)
    from h have z: "zcaps vr = Some resolve"
      and nn: "\<forall>uri c. resolve uri = (c, None) \<longrightarrow> c \<noteq> None"
      by blast+
    have "snd (verifyCapabilityChain (Some vr) cap (CapabilityAction p) (Some invo))
            \<noteq> Panic"
      by (rule verifyCapabilityChain_no_panic [OF z nn])
    moreover from h have
      "isInvoker cap (CapabilityInvocation.VerificationMethod invo) \<noteq> Panic"
      by (simp add: isInvoker_def Let_def split: sum.splits)
    ultimately show ?thesis
      using Some
      by (auto simp: Verify_def split: prod.splits outcome.splits option.splits)
  qed
qed

theorem Verify_nil_safety_witness:
  "Verify (Some \<lparr>zcaps = Some exampleResolver\<rparr>) None (Some exampleInvocation) = ([], Panic) \<and>
   Capability exampleProof = Some exampleRoot \<and>
   CapabilityAction exampleProof \<in> set (AllowedAction exampleRoot) \<and>
   Verify (Some \<lparr>zcaps = Some exampleResolver\<rparr>) (Some exampleProof) None = ([], Panic) \<and>
   verifyCapabilityChain (Some \<lparr>zcaps = Some exampleResolver\<rparr>) exampleRoot
     (CapabilityAction exampleProof)
     (Some (exampleInvocation\<lparr>CapabilityInvocation.VerificationMethod := None\<rparr>)) =
     ([''urn:cap:1''], Return None) \<and>
   invokers exampleRoot = Inr [''did:ex:alice''] \<and>
   Verify (Some \<lparr>zcaps = Some exampleResolver\<rparr>) (Some exampleProof)
     (Some (exampleInvocation\<lparr>CapabilityInvocation.VerificationMethod := None\<rparr>)) =
     ([''urn:cap:1''], Panic) \<and>
   (\<forall>uri. exampleResolver uri \<noteq> (None, None)) \<and>
   CapabilityInvocation.VerificationMethod exampleInvocation =
     Some \<lparr>VerificationMethod.ID = ''did:ex:alice'', Controller = []\<rparr> \<and>
   snd (Verify (Some \<lparr>zcaps = Some exampleResolver\<rparr>) (Some exampleProof)
          (Some exampleInvocation)) \<noteq> Panic"
proof -
  let ?v = "Some \<lparr>zcaps = Some exampleResolver\<rparr>"
  let ?nomethod = "exampleInvocation\<lparr>CapabilityInvocation.VerificationMethod := None\<rparr>"
  let ?alice = "\<lparr>VerificationMethod.ID = ''did:ex:alice'', Controller = []\<rparr>"
  have h: "Capability exampleProof = Some exampleRoot"
    "CapabilityAction exampleProof \<in> set (AllowedAction exampleRoot)"
    "invokers exampleRoot = Inr [''did:ex:alice'']"
    "CapabilityInvocation.VerificationMethod exampleInvocation = Some ?alice"
    "CapabilityInvocation.VerificationMethod ?nomethod = None"
    by (simp_all add: exampleProof_def exampleRoot_def exampleInvocation_def)
  have c: "verifyCapabilityChain ?v exampleRoot (CapabilityAction exampleProof)
             (Some ?nomethod) = ([''urn:cap:1''], Return None)"
    by (simp add: verifyCapabilityChain_def exampleResolver_def exampleProof_def
          exampleInvocation_def exampleRoot_def)
  have r: "\<forall>uri. exampleResolver uri \<noteq> (None, None)"
    by (simp add: exampleResolver_def)
  have r': "\<forall>uri c. exampleResolver uri = (c, None) \<longrightarrow> c \<noteq> None"
    by (auto simp: exampleResolver_def split: if_splits)
  have z: "zcaps \<lparr>zcaps = Some exampleResolver\<rparr> = Some exampleResolver" by simp
  note t = Verify_nil_safety
             [where v = ?v and invocation = "Some exampleInvocation" and p = exampleProof
                and cap = exampleRoot and calls = "[''urn:cap:1'']"
                and invs = "[''did:ex:alice'']" and vr = "\<lparr>zcaps = Some exampleResolver\<rparr>"
                and resolve = exampleResolver and vm = ?alice]
  from t [where invo = ?nomethod] h c
  have a: "Verify ?v None (Some exampleInvocation) = ([], Panic) \<and>
           Verify ?v (Some exampleProof) None = ([], Panic) \<and>
           Verify ?v (Some exampleProof) (Some ?nomethod) = ([''urn:cap:1''], Panic)"
    by simp
  from t [where invo = exampleInvocation] h(4) r' z
  have b: "snd (Verify ?v (Some exampleProof) (Some exampleInvocation)) \<noteq> Panic"
    by blast
  from a b c h r show ?thesis by simp
qed

end
